theory Spec2Isabelle
  imports Complex_Main
begin

section \<open>Values, errors and the services the module calls\<close>

text \<open>
  The module \<^verbatim>\<open>offset_probe.py\<close> is a Klipper extension. Its numbers are Python floats,
  taken here as reals (what a float rounds away is outside this development); a
  position is the list \<^verbatim>\<open>[x, y, z, e]\<close> that \<^verbatim>\<open>get_position()\<close> returns.
\<close>

type_synonym position = "real list"

text \<open>Objects of the printer are identities; what \<^verbatim>\<open>printer.lookup_object\<close> is given is a
  name, or whatever else the caller passes: an integer, or an object already looked up.\<close>

datatype obj = Obj nat

datatype key = KStr string | KInt int | KObj obj

text \<open>The exceptions that can leave the module. \<^verbatim>\<open>CommandError\<close> is
  \<^verbatim>\<open>printer.command_error\<close>, the only one the module catches.\<close>

datatype error =
    CommandError string
  | ConfigError string
  | TypeError
  | ValueError
  | IndexError
  | AttributeError
  | OtherError string

text \<open>What the module tells the outside, in the order it does.\<close>

datatype event =
    RunGcode string
  | ManualMove obj "real option list" real
  | ProbingMove obj position real
  | RespondInfo string

text \<open>
  The printer, the toolheads, the homing module, the G-code templates and
  \<^verbatim>\<open>gcode_move\<close> are not part of the module: they are parameters, functions over a
  machine state \<open>'m\<close> that the module never inspects.
\<close>

record 'm services =
  lookup_object :: "key \<Rightarrow> error + obj"
  get_position :: "obj \<Rightarrow> 'm \<Rightarrow> error + position"
  homed_axes :: "obj \<Rightarrow> 'm \<Rightarrow> string"
  manual_move :: "obj \<Rightarrow> real option list \<Rightarrow> real \<Rightarrow> 'm \<Rightarrow> error + 'm"
  probing_move :: "obj \<Rightarrow> position \<Rightarrow> real \<Rightarrow> 'm \<Rightarrow> error + position \<times> 'm"
  run_gcode_from_command :: "string \<Rightarrow> 'm \<Rightarrow> error + 'm"
  base_position :: "'m \<Rightarrow> position"

text \<open>The attributes \<^verbatim>\<open>__init__\<close> reads from the configuration.\<close>

record config =
  probe_x :: real
  probe_y :: real
  tool_probe_z :: real
  speed :: real
  lift_speed :: real
  lift_distance :: real
  move_speed :: real
  z_position :: real
  start_gcode :: string
  end_gcode :: string
  toolchange_gcode_0 :: string
  toolchange_gcode_1 :: string

text \<open>The command object: \<^verbatim>\<open>get_float(name, default, above=...)\<close> is Klipper's.\<close>

record gcmd =
  get_float :: "string \<Rightarrow> real \<Rightarrow> real \<Rightarrow> error + real"

subsection \<open>Sequencing with exceptions and a log\<close>

text \<open>A statement runs on the machine state and the log of events so far, and ends
  with a value or with an exception; the state it leaves is kept in both cases.\<close>

type_synonym 'm st = "'m \<times> event list"
type_synonym ('m, 'a) prog = "'m st \<Rightarrow> (error + 'a) \<times> 'm st"

definition ret :: "'a \<Rightarrow> ('m, 'a) prog" where
  "ret a s = (Inr a, s)"

definition raise :: "error \<Rightarrow> ('m, 'a) prog" where
  "raise e s = (Inl e, s)"

definition bind :: "('m, 'a) prog \<Rightarrow> ('a \<Rightarrow> ('m, 'b) prog) \<Rightarrow> ('m, 'b) prog" where
  "bind f g s = (case f s of (Inl e, s') \<Rightarrow> (Inl e, s') | (Inr a, s') \<Rightarrow> g a s')"

definition pure :: "error + 'a \<Rightarrow> ('m, 'a) prog" where
  "pure r s = (r, s)"

definition emit :: "event \<Rightarrow> ('m, unit) prog" where
  "emit ev s = (Inr (), (fst s, snd s @ [ev]))"

definition reading :: "('m \<Rightarrow> 'a) \<Rightarrow> ('m, 'a) prog" where
  "reading f s = (Inr (f (fst s)), s)"

definition query :: "('m \<Rightarrow> error + 'a) \<Rightarrow> ('m, 'a) prog" where
  "query f s = (f (fst s), s)"

definition act :: "('m \<Rightarrow> error + 'm) \<Rightarrow> ('m, unit) prog" where
  "act f s = (case f (fst s) of Inl e \<Rightarrow> (Inl e, s) | Inr m' \<Rightarrow> (Inr (), (m', snd s)))"

definition act_result :: "('m \<Rightarrow> error + 'a \<times> 'm) \<Rightarrow> ('m, 'a) prog" where
  "act_result f s =
     (case f (fst s) of Inl e \<Rightarrow> (Inl e, s) | Inr (a, m') \<Rightarrow> (Inr a, (m', snd s)))"

subsection \<open>Python's own operations\<close>

text \<open>\<^verbatim>\<open>xs[i]\<close> and \<^verbatim>\<open>xs[i] = v\<close> raise \<^verbatim>\<open>IndexError\<close> out of range.\<close>

definition py_index :: "'a list \<Rightarrow> nat \<Rightarrow> error + 'a" where
  "py_index xs i = (if i < length xs then Inr (xs ! i) else Inl IndexError)"

definition py_setitem :: "'a list \<Rightarrow> nat \<Rightarrow> 'a \<Rightarrow> error + 'a list" where
  "py_setitem xs i v = (if i < length xs then Inr (xs[i := v]) else Inl IndexError)"

text \<open>\<^verbatim>\<open>+\<close> adds two numbers and concatenates two lists; a number and a list is a
  \<^verbatim>\<open>TypeError\<close>.\<close>

datatype pyval = PyFloat real | PyList "real list"

fun py_add :: "pyval \<Rightarrow> pyval \<Rightarrow> error + pyval" where
  "py_add (PyFloat a) (PyFloat b) = Inr (PyFloat (a + b))"
| "py_add (PyList a) (PyList b) = Inr (PyList (a @ b))"
| "py_add (PyFloat a) (PyList b) = Inl TypeError"
| "py_add (PyList a) (PyFloat b) = Inl TypeError"

text \<open>\<^verbatim>\<open>a, b = v\<close> needs an iterable of exactly two items.\<close>

fun py_unpack2 :: "pyval \<Rightarrow> error + real \<times> real" where
  "py_unpack2 (PyFloat a) = Inl TypeError"
| "py_unpack2 (PyList [a, b]) = Inr (a, b)"
| "py_unpack2 (PyList xs) = Inl ValueError"

fun py_as_list :: "pyval \<Rightarrow> error + real list" where
  "py_as_list (PyFloat a) = Inl TypeError"
| "py_as_list (PyList xs) = Inr xs"

text \<open>\<^verbatim>\<open>round(x)\<close> of Python 3: the nearest integer, a tie going to the even one.\<close>

definition py_round :: "real \<Rightarrow> int" where
  "py_round x =
     (let f = \<lfloor>x\<rfloor>; d = x - of_int f in
      if d < 1 / 2 then f
      else if 1 / 2 < d then f + 1
      else if even f then f else f + 1)"

text \<open>\<^verbatim>\<open>needle in haystack\<close> on strings: the needle occurs as a contiguous run.\<close>

fun starts_with :: "string \<Rightarrow> string \<Rightarrow> bool" where
  "starts_with [] ys = True"
| "starts_with (x # xs) [] = False"
| "starts_with (x # xs) (y # ys) = (x = y \<and> starts_with xs ys)"

fun py_in :: "string \<Rightarrow> string \<Rightarrow> bool" where
  "py_in needle [] = (needle = [])"
| "py_in needle (y # ys) = (starts_with needle (y # ys) \<or> py_in needle ys)"

text \<open>\<^verbatim>\<open>'%d' % n\<close> for an integer.\<close>

definition digit_char :: "nat \<Rightarrow> char" where
  "digit_char d = ''0123456789'' ! d"

fun fmt_nat :: "nat \<Rightarrow> string" where
  "fmt_nat n =
     (if n < 10 then [digit_char n]
      else fmt_nat (n div 10) @ [digit_char (n mod 10)])"

declare fmt_nat.simps [simp del]

definition fmt_d :: "int \<Rightarrow> string" where
  "fmt_d i = (if i < 0 then ''-'' @ fmt_nat (nat (- i)) else fmt_nat (nat i))"

text \<open>\<^verbatim>\<open>'%.6f' % x\<close>: the sign, the integer part, a point and six digits, of \<open>x\<close>
  rounded to the nearest millionth (a tie to the even one).\<close>

definition pad6 :: "string \<Rightarrow> string" where
  "pad6 s = replicate (6 - length s) (CHR ''0'') @ s"

definition fmt_6f :: "real \<Rightarrow> string" where
  "fmt_6f x =
     (let n = nat (py_round (\<bar>x\<bar> * 1000000)) in
      (if x < 0 then ''-'' else '''') @ fmt_nat (n div 1000000) @ ''.''
        @ pad6 (fmt_nat (n mod 1000000)))"

definition join :: "string \<Rightarrow> string list \<Rightarrow> string" where
  "join sep xs = (case xs of [] \<Rightarrow> [] | y # ys \<Rightarrow> y @ concat (map (\<lambda>z. sep @ z) ys))"

section \<open>The module\<close>

text \<open>
  Each method of \<^verbatim>\<open>OffsetProbe\<close> is a definition of the same name, without the leading
  underscore where the method has one; \<open>self\<close> is the configuration, \<open>svc\<close> the
  services. A parameter named \<^verbatim>\<open>toolhead\<close> is whatever the caller passes on to
  \<^verbatim>\<open>lookup_object\<close>, hence a \<open>key\<close>.
\<close>

definition HINT_TIMEOUT :: string where
  "HINT_TIMEOUT =
     [CHR 0x0A] @ ''If the probe did not move far enough to trigger, consider''
     @ [CHR 0x0A] @ ''reducing the Z axis minimum position so the probe can travel further.''
     @ [CHR 0x0A] @ ''The probe will not move further than the minimum Z position.''
     @ [CHR 0x0A]"

text \<open>\<^verbatim>\<open>get_lift_speed\<close>, lines 57 to 60.\<close>

definition get_lift_speed :: "config \<Rightarrow> gcmd option \<Rightarrow> error + real" where
  "get_lift_speed self g =
     (case g of
        Some c \<Rightarrow> get_float c ''LIFT_SPEED'' (lift_speed self) 0
      | None \<Rightarrow> Inr (lift_speed self))"

text \<open>\<^verbatim>\<open>_ensure_homed\<close>, lines 63 to 67.\<close>

definition ensure_homed :: "'m services \<Rightarrow> ('m, unit) prog" where
  "ensure_homed svc =
     bind (pure (lookup_object svc (KStr ''toolhead''))) (\<lambda>toolhead.
     bind (reading (homed_axes svc toolhead)) (\<lambda>axes.
       if CHR ''z'' \<notin> set axes
       then raise (CommandError ''Must home before offset probing'')
       else ret ()))"

text \<open>The \<^verbatim>\<open>try\<close> of \<^verbatim>\<open>_probe\<close>: only a command error is caught, and raised again
  with the hint appended when its text names the timeout.\<close>

definition reraise :: "error \<Rightarrow> error" where
  "reraise e =
     (case e of
        CommandError reason \<Rightarrow>
          CommandError (if py_in ''Timeout during endstop homing'' reason
                        then reason @ HINT_TIMEOUT else reason)
      | _ \<Rightarrow> e)"

definition try_probing_move ::
  "'m services \<Rightarrow> obj \<Rightarrow> position \<Rightarrow> real \<Rightarrow> ('m, position) prog" where
  "try_probing_move svc phoming pos spd s =
     (case bind (emit (ProbingMove phoming pos spd))
                (\<lambda>_. act_result (probing_move svc phoming pos spd)) s of
        (Inl e, s') \<Rightarrow> (Inl (reraise e), s')
      | (Inr epos, s') \<Rightarrow> (Inr epos, s'))"

text \<open>\<^verbatim>\<open>_probe\<close>, lines 70 to 88: the homing check, the two lookups, the target with Z
  replaced by the floor, the probing move, and the Z of where it ended.\<close>

definition probe :: "config \<Rightarrow> 'm services \<Rightarrow> real \<Rightarrow> key \<Rightarrow> ('m, real) prog" where
  "probe self svc spd toolhead =
     bind (ensure_homed svc) (\<lambda>_.
     bind (pure (lookup_object svc toolhead)) (\<lambda>th.
     bind (pure (lookup_object svc (KStr ''homing''))) (\<lambda>phoming.
     bind (query (get_position svc th)) (\<lambda>pos.
     bind (pure (py_setitem pos 2 (z_position self))) (\<lambda>pos'.
     bind (try_probing_move svc phoming pos' spd) (\<lambda>epos.
     pure (py_index epos 2)))))))"

text \<open>\<^verbatim>\<open>_lift_between_probes\<close>, lines 111 to 117.\<close>

definition lift_between_probes ::
  "config \<Rightarrow> 'm services \<Rightarrow> key \<Rightarrow> real option \<Rightarrow> ('m, unit) prog" where
  "lift_between_probes self svc toolhead dist_arg =
     (let d = (case dist_arg of None \<Rightarrow> lift_distance self | Some d' \<Rightarrow> d') in
      bind (pure (lookup_object svc toolhead)) (\<lambda>th.
      bind (query (get_position svc th)) (\<lambda>liftpos.
      bind (pure (py_index liftpos 2)) (\<lambda>z.
      bind (emit (ManualMove th (map Some (liftpos[2 := z + d])) (lift_speed self))) (\<lambda>_.
      act (manual_move svc th (map Some (liftpos[2 := z + d])) (lift_speed self)))))))"

text \<open>\<^verbatim>\<open>_accurate_probe\<close>, lines 91 to 98. Line 94 is \<open>reprobe_speed\<close>; line 96 passes the
  integer 2 as the \<^verbatim>\<open>toolhead\<close> of the lift and no distance.\<close>

definition reprobe_speed :: "real \<Rightarrow> int" where
  "reprobe_speed spd = py_round (spd / 2)"

definition accurate_probe :: "config \<Rightarrow> 'm services \<Rightarrow> real \<Rightarrow> key \<Rightarrow> ('m, real) prog" where
  "accurate_probe self svc spd toolhead =
     bind (pure (lookup_object svc toolhead)) (\<lambda>th.
     bind (probe self svc spd (KObj th)) (\<lambda>start_z.
     bind (lift_between_probes self svc (KInt 2) None) (\<lambda>_.
     bind (probe self svc (of_int (reprobe_speed spd)) (KObj th)) (\<lambda>accurate_z.
     ret accurate_z))))"

text \<open>\<^verbatim>\<open>_get_gcode_position\<close>, lines 100 to 109: an offset is read only for an axis that is
  given.\<close>

definition get_gcode_position ::
  "position \<Rightarrow> real option \<Rightarrow> real option \<Rightarrow> real option \<Rightarrow>
     error + real option \<times> real option \<times> real option" where
  "get_gcode_position offsets x y z =
     (case (case x of None \<Rightarrow> Inr None
            | Some v \<Rightarrow> (case py_index offsets 0 of Inl e \<Rightarrow> Inl e | Inr d \<Rightarrow> Inr (Some (v + d)))) of
        Inl e \<Rightarrow> Inl e
      | Inr x' \<Rightarrow>
     (case (case y of None \<Rightarrow> Inr None
            | Some v \<Rightarrow> (case py_index offsets 1 of Inl e \<Rightarrow> Inl e | Inr d \<Rightarrow> Inr (Some (v + d)))) of
        Inl e \<Rightarrow> Inl e
      | Inr y' \<Rightarrow>
     (case (case z of None \<Rightarrow> Inr None
            | Some v \<Rightarrow> (case py_index offsets 2 of Inl e \<Rightarrow> Inl e | Inr d \<Rightarrow> Inr (Some (v + d)))) of
        Inl e \<Rightarrow> Inl e
      | Inr z' \<Rightarrow> Inr (x', y', z'))))"

text \<open>The formats: the summary of lines 164 to 167, whose labels are the indices of
  the list, and the line of lines 142 and 159.\<close>

definition offset_str :: "real list \<Rightarrow> string list" where
  "offset_str offsets =
     map (\<lambda>i. ''T'' @ fmt_d (int i) @ ''='' @ fmt_6f (offsets ! i)) [0 ..< length offsets]"

definition offsets_line :: "real list \<Rightarrow> string" where
  "offsets_line offsets = ''Offsets: '' @ join '', '' (offset_str offsets)"

definition tool_line :: "int \<Rightarrow> real \<Rightarrow> string" where
  "tool_line i z = ''Tool '' @ fmt_d i @ '': '' @ fmt_6f z"

text \<open>
  The command, in two parts: \<open>tool1_cycle\<close> is lines 145 to 169, from the lookup of
  the second toolhead to the return, given the reference height and the offsets
  collected so far; \<open>cmd_OFFSET_PROBE\<close> is the whole command, lines 123 to 143
  followed by that part.

  The statement of line 136 is a chained assignment: its right-hand side
  \<^verbatim>\<open>curr_pos[2] + curr_pos[3:]\<close> is evaluated first, then bound to \<^verbatim>\<open>coord\<close>, to the pair
  \<^verbatim>\<open>(self.probe_x, y)\<close> and to the pair \<^verbatim>\<open>(self.probe_y, z)\<close>.
\<close>

definition tool1_cycle ::
  "config \<Rightarrow> 'm services \<Rightarrow> real \<Rightarrow> real list \<Rightarrow> ('m, real list) prog" where
  "tool1_cycle self svc base_z offsets0 =
     bind (pure (lookup_object svc (KStr ''toolhead1''))) (\<lambda>toolhead.
     bind (emit (RunGcode (toolchange_gcode_1 self))) (\<lambda>_.
     bind (act (run_gcode_from_command svc (toolchange_gcode_1 self))) (\<lambda>_.
     bind (query (get_position svc toolhead)) (\<lambda>curr_pos.
     bind (pure (py_index curr_pos 2)) (\<lambda>cz.
     bind (reading (base_position svc)) (\<lambda>offsets.
     bind (pure (get_gcode_position offsets (Some (probe_x self)) (Some (probe_y self)) (Some cz)))
       (\<lambda>(x', y', z').
     bind (emit (ManualMove toolhead ([x', y', z'] @ map Some (drop 3 curr_pos)) (move_speed self)))
       (\<lambda>_.
     bind (act (manual_move svc toolhead ([x', y', z'] @ map Some (drop 3 curr_pos))
                 (move_speed self))) (\<lambda>_.
     bind (accurate_probe self svc (speed self) (KObj toolhead)) (\<lambda>z.
     bind (emit (RespondInfo (tool_line 0 z))) (\<lambda>_.
     bind (lift_between_probes self svc (KObj toolhead) None) (\<lambda>_.
     bind (emit (RunGcode (end_gcode self))) (\<lambda>_.
     bind (act (run_gcode_from_command svc (end_gcode self))) (\<lambda>_.
     bind (emit (RespondInfo (offsets_line (offsets0 @ [z - base_z])))) (\<lambda>_.
     ret (offsets0 @ [z - base_z]))))))))))))))))"

definition cmd_OFFSET_PROBE :: "config \<Rightarrow> 'm services \<Rightarrow> gcmd \<Rightarrow> ('m, real list) prog" where
  "cmd_OFFSET_PROBE self svc g =
     bind (emit (RunGcode (start_gcode self))) (\<lambda>_.
     bind (act (run_gcode_from_command svc (start_gcode self))) (\<lambda>_.
     bind (pure (lookup_object svc (KStr ''toolhead''))) (\<lambda>toolhead.
     bind (emit (RunGcode (toolchange_gcode_0 self))) (\<lambda>_.
     bind (act (run_gcode_from_command svc (toolchange_gcode_0 self))) (\<lambda>_.
     bind (query (get_position svc toolhead)) (\<lambda>curr_pos.
     bind (pure (py_index curr_pos 2)) (\<lambda>cz.
     bind (pure (py_add (PyFloat cz) (PyList (drop 3 curr_pos)))) (\<lambda>v.
     bind (pure (py_unpack2 v)) (\<lambda>(px, y).
     bind (pure (py_unpack2 v)) (\<lambda>(py, z).
     bind (pure (py_as_list v)) (\<lambda>coord.
     bind (emit (ManualMove toolhead (map Some coord) (move_speed self))) (\<lambda>_.
     bind (act (manual_move svc toolhead (map Some coord) (move_speed self))) (\<lambda>_.
     bind (accurate_probe (self\<lparr>probe_x := px, probe_y := py\<rparr>) svc (speed self) (KObj toolhead))
       (\<lambda>base_z.
     bind (emit (RespondInfo (tool_line 0 base_z))) (\<lambda>_.
     bind (lift_between_probes (self\<lparr>probe_x := px, probe_y := py\<rparr>) svc (KObj toolhead) None)
       (\<lambda>_.
     tool1_cycle (self\<lparr>probe_x := px, probe_y := py\<rparr>) svc base_z []))))))))))))))))"

section \<open>A printer to run the module on\<close>

text \<open>
  A small machine with the two toolheads and the homing module registered under their
  names, as Klipper registers them: \<^verbatim>\<open>lookup_object\<close> knows names only, and raises a
  configuration error for anything else. A probing move reports the next of the
  pending outcomes.
\<close>

record sim =
  sim_pos0 :: position
  sim_pos1 :: position
  sim_homed :: string
  sim_frame :: position
  sim_pending :: "(error + position) list"

definition sim_lookup :: "key \<Rightarrow> error + obj" where
  "sim_lookup k =
     (case k of
        KStr n \<Rightarrow>
          (if n = ''toolhead'' then Inr (Obj 0)
           else if n = ''toolhead1'' then Inr (Obj 1)
           else if n = ''homing'' then Inr (Obj 2)
           else Inl (ConfigError ''Unknown config object''))
      | KInt i \<Rightarrow> Inl (ConfigError ''Unknown config object'')
      | KObj ob \<Rightarrow> Inl (ConfigError ''Unknown config object''))"

definition sim_get_position :: "obj \<Rightarrow> sim \<Rightarrow> error + position" where
  "sim_get_position ob m =
     (if ob = Obj 0 then Inr (sim_pos0 m)
      else if ob = Obj 1 then Inr (sim_pos1 m)
      else Inl AttributeError)"

fun merge_coord :: "real option list \<Rightarrow> position \<Rightarrow> position" where
  "merge_coord (c # cs) (p # ps) = (case c of None \<Rightarrow> p | Some v \<Rightarrow> v) # merge_coord cs ps"
| "merge_coord cs ps = ps"

definition sim_manual_move :: "obj \<Rightarrow> real option list \<Rightarrow> real \<Rightarrow> sim \<Rightarrow> error + sim" where
  "sim_manual_move ob coord spd m =
     (if ob = Obj 0 then Inr (m\<lparr>sim_pos0 := merge_coord coord (sim_pos0 m)\<rparr>)
      else if ob = Obj 1 then Inr (m\<lparr>sim_pos1 := merge_coord coord (sim_pos1 m)\<rparr>)
      else Inl AttributeError)"

definition sim_probing_move ::
  "obj \<Rightarrow> position \<Rightarrow> real \<Rightarrow> sim \<Rightarrow> error + position \<times> sim" where
  "sim_probing_move ph pos spd m =
     (case sim_pending m of
        [] \<Rightarrow> Inl (CommandError ''No trigger on probe after full movement'')
      | Inl e # rest \<Rightarrow> Inl e
      | Inr epos # rest \<Rightarrow> Inr (epos, m\<lparr>sim_pos0 := epos, sim_pending := rest\<rparr>))"

definition klipper :: "sim services" where
  "klipper =
     \<lparr> lookup_object = sim_lookup,
       get_position = sim_get_position,
       homed_axes = (\<lambda>ob m. sim_homed m),
       manual_move = sim_manual_move,
       probing_move = sim_probing_move,
       run_gcode_from_command = (\<lambda>script m. Inr m),
       base_position = sim_frame \<rparr>"

text \<open>The configuration of the end-to-end scenario, and a machine homed on all axes
  whose probing moves will trigger at 0.48, 0.5, 0.61 and 0.62.\<close>

definition cfg0 :: config where
  "cfg0 =
     \<lparr> probe_x = 10, probe_y = 20, tool_probe_z = 1, speed = 5, lift_speed = 5,
       lift_distance = 1 / 2, move_speed = 100, z_position = 0,
       start_gcode = ''START'', end_gcode = ''END'',
       toolchange_gcode_0 = ''T0'', toolchange_gcode_1 = ''T1'' \<rparr>"

definition sim0 :: sim where
  "sim0 =
     \<lparr> sim_pos0 = [0, 0, 5, 0], sim_pos1 = [0, 0, 5, 0], sim_homed = ''xyz'',
       sim_frame = [1, 2, 3, 0],
       sim_pending = [Inr [10, 20, 48 / 100, 0], Inr [10, 20, 1 / 2, 0],
                      Inr [10, 20, 61 / 100, 0], Inr [10, 20, 62 / 100, 0]] \<rparr>"

text \<open>A command that carries \<^verbatim>\<open>LIFT_SPEED=20\<close>.\<close>

definition gcmd_lift20 :: gcmd where
  "gcmd_lift20 =
     \<lparr> get_float = (\<lambda>name dflt above.
         if name = ''LIFT_SPEED''
         then (if above < 20 then Inr 20 else Inl (CommandError ''Error on LIFT_SPEED''))
         else Inr dflt) \<rparr>"

text \<open>A command without parameters: every \<^verbatim>\<open>get_float\<close> gives its default.\<close>

definition gcmd_plain :: gcmd where
  "gcmd_plain = \<lparr> get_float = (\<lambda>name dflt above. Inr dflt) \<rparr>"

text \<open>The same machine not homed on Z, and with a probing move that fails: once with
  the timeout, once with another command error.\<close>

definition sim_unhomed :: sim where
  "sim_unhomed = sim0\<lparr>sim_homed := ''xy''\<rparr>"

definition sim_timeout :: sim where
  "sim_timeout = sim0\<lparr>sim_pending := [Inl (CommandError ''Timeout during endstop homing'')]\<rparr>"

definition sim_early :: sim where
  "sim_early = sim0\<lparr>sim_pending := [Inl (CommandError ''Probe triggered prior to movement'')]\<rparr>"

text \<open>
  A registry that Klipper does not have: it also resolves an object to itself and the
  integer 2 to the first toolhead. It is the only kind of registry on which the probing
  sequence of the module runs to its end, and serves to show what the sequence then does.
\<close>

definition obliging :: "sim services" where
  "obliging =
     klipper\<lparr> lookup_object :=
       (\<lambda>k. case k of KObj ob \<Rightarrow> Inr ob | KInt i \<Rightarrow> Inr (Obj 0) | KStr n \<Rightarrow> sim_lookup k) \<rparr>"

definition sim1 :: sim where
  "sim1 = sim0\<lparr>sim_pending := [Inr [10, 20, 61 / 100, 0], Inr [10, 20, 62 / 100, 0]]\<rparr>"

section \<open>Facts about the building blocks\<close>

lemmas prog_defs = bind_def ret_def raise_def pure_def emit_def reading_def query_def
  act_def act_result_def

lemmas sim_defs = klipper_def sim_lookup_def sim_get_position_def sim_manual_move_def
  sim_probing_move_def sim0_def cfg0_def

lemmas run_defs = tool1_cycle_def accurate_probe_def probe_def lift_between_probes_def
  ensure_homed_def try_probing_move_def get_gcode_position_def reprobe_speed_def py_round_def
  py_index_def py_setitem_def prog_defs sim_defs obliging_def sim1_def Let_def

text \<open>Rounding stays within one half of its argument.\<close>

lemma py_round_near: "\<bar>of_int (py_round x) - x\<bar> \<le> 1 / 2"
  unfolding py_round_def Let_def by (auto; linarith)

lemma py_round_pos: "1 / 2 < x \<Longrightarrow> 0 < py_round x"
  using py_round_near [of x] by linarith

text \<open>The substring test is what its name says.\<close>

lemma starts_with_iff: "starts_with xs ys \<longleftrightarrow> (\<exists>s. ys = xs @ s)"
  by (induction xs ys rule: starts_with.induct) auto

lemma py_in_iff: "py_in needle hay \<longleftrightarrow> (\<exists>p s. hay = p @ needle @ s)"
proof (induction hay)
  case Nil
  then show ?case by simp
next
  case (Cons y ys)
  show ?case
  proof
    assume "py_in needle (y # ys)"
    then consider "starts_with needle (y # ys)" | "py_in needle ys" by auto
    then show "\<exists>p s. y # ys = p @ needle @ s"
    proof cases
      case 1
      then obtain s where "y # ys = needle @ s" by (auto simp: starts_with_iff)
      then have "y # ys = [] @ needle @ s" by simp
      then show ?thesis by blast
    next
      case 2
      with Cons obtain p s where "ys = p @ needle @ s" by auto
      then have "y # ys = (y # p) @ needle @ s" by simp
      then show ?thesis by blast
    qed
  next
    assume "\<exists>p s. y # ys = p @ needle @ s"
    then obtain p s where eq: "y # ys = p @ needle @ s" by blast
    show "py_in needle (y # ys)"
    proof (cases p)
      case Nil
      with eq have "starts_with needle (y # ys)" by (auto simp: starts_with_iff)
      then show ?thesis by simp
    next
      case (Cons a p')
      with eq have "ys = p' @ needle @ s" by simp
      with Cons.IH have "py_in needle ys" by blast
      then show ?thesis by simp
    qed
  qed
qed

text \<open>The two numbers of the end-to-end scenario, formatted.\<close>

lemma py_round_120000: "py_round (\<bar>3 / 25\<bar> * 1000000) = 120000"
  by (simp add: py_round_def Let_def)

lemma fmt_6f_012: "fmt_6f (3 / 25) = ''0.120000''"
  unfolding fmt_6f_def Let_def py_round_120000
  by (simp add: fmt_nat.simps pad6_def digit_char_def)

lemma py_round_620000: "py_round (\<bar>31 / 50\<bar> * 1000000) = 620000"
  by (simp add: py_round_def Let_def)

lemma fmt_6f_062: "fmt_6f (31 / 50) = ''0.620000''"
  unfolding fmt_6f_def Let_def py_round_620000
  by (simp add: fmt_nat.simps pad6_def digit_char_def)

lemma offsets_line_012: "offsets_line [62 / 100 - 1 / 2] = ''Offsets: T0=0.120000''"
  unfolding offsets_line_def offset_str_def join_def
  by (simp add: fmt_6f_012 fmt_d_def fmt_nat.simps digit_char_def)

lemma tool_line_062: "tool_line 0 (62 / 100) = ''Tool 0: 0.620000''"
  unfolding tool_line_def
  by (simp add: fmt_6f_062 fmt_d_def fmt_nat.simps digit_char_def)

text \<open>The homing check changes nothing, and a probe that fails it changes nothing.\<close>

lemma probe_unhomed:
  assumes "lookup_object svc (KStr ''toolhead'') = Inr g"
    and "CHR ''z'' \<notin> set (homed_axes svc g m)"
  shows "probe self svc spd toolhead (m, evs) =
           (Inl (CommandError ''Must home before offset probing''), (m, evs))"
  using assms by (simp add: probe_def ensure_homed_def prog_defs)

text \<open>What a probe, a lift and the two-pass sequence have done when they return.\<close>

lemma probe_returns:
  assumes "probe self svc spd k (m, evs) = (Inr z, (m', evs'))"
  shows "\<exists>ph pos epos.
           evs' = evs @ [ProbingMove ph pos spd] \<and>
           probing_move svc ph pos spd m = Inr (epos, m') \<and> 2 < length epos \<and> z = epos ! 2"
  using assms
  by (auto simp: probe_def ensure_homed_def try_probing_move_def py_index_def py_setitem_def
      prog_defs split: sum.splits prod.splits if_splits)

lemma lift_returns:
  assumes "lift_between_probes self svc k d (m, evs) = (Inr u, (m', evs'))"
  shows "\<exists>th pos.
           lookup_object svc k = Inr th \<and> get_position svc th m = Inr pos \<and> 2 < length pos \<and>
           evs' = evs @ [ManualMove th
             (map Some (pos[2 := pos ! 2 + (case d of None \<Rightarrow> lift_distance self | Some x \<Rightarrow> x)]))
             (lift_speed self)]"
  using assms
  by (auto simp: lift_between_probes_def py_index_def prog_defs Let_def
      split: sum.splits prod.splits if_splits)

lemma accurate_probe_returns:
  assumes "accurate_probe self svc spd k (m, evs) = (Inr z, (m', evs'))"
  shows "\<exists>ph1 p1 th pos ph2 p2 epos m2.
           evs' = evs @ [ProbingMove ph1 p1 spd,
                         ManualMove th (map Some (pos[2 := pos ! 2 + lift_distance self]))
                           (lift_speed self),
                         ProbingMove ph2 p2 (of_int (reprobe_speed spd))] \<and>
           lookup_object svc (KInt 2) = Inr th \<and>
           probing_move svc ph2 p2 (of_int (reprobe_speed spd)) m2 = Inr (epos, m') \<and>
           z = epos ! 2"
proof -
  from assms obtain th0 where l0: "lookup_object svc k = Inr th0"
    by (auto simp: accurate_probe_def prog_defs split: sum.splits)
  from assms l0 obtain z1 m1 e1 where
    p1: "probe self svc spd (KObj th0) (m, evs) = (Inr z1, (m1, e1))"
    by (cases "probe self svc spd (KObj th0) (m, evs)")
       (auto simp: accurate_probe_def prog_defs split: sum.splits)
  from assms l0 p1 obtain m2 e2 where
    lf: "lift_between_probes self svc (KInt 2) None (m1, e1) = (Inr (), (m2, e2))"
    by (cases "lift_between_probes self svc (KInt 2) None (m1, e1)")
       (auto simp: accurate_probe_def prog_defs split: sum.splits)
  from assms l0 p1 lf have
    p2: "probe self svc (of_int (reprobe_speed spd)) (KObj th0) (m2, e2) = (Inr z, (m', evs'))"
    by (cases "probe self svc (of_int (reprobe_speed spd)) (KObj th0) (m2, e2)")
       (auto simp: accurate_probe_def prog_defs split: sum.splits)
  from probe_returns [OF p1] lift_returns [OF lf] probe_returns [OF p2]
  show ?thesis by fastforce
qed

text \<open>On the obliging registry the sequence runs: a probe at 5, a lift of the object
  registered as 2 by the lift distance, a probe at \<^verbatim>\<open>round(5 / 2) = 2\<close>, and the second
  trigger height comes back.\<close>

lemma accurate_probe_obliging:
  "(\<lambda>r. (fst r, snd (snd r))) (accurate_probe cfg0 obliging 5 (KObj (Obj 1)) (sim1, [])) =
   (Inr (62 / 100),
    [ProbingMove (Obj 2) [0, 0, 0, 0] 5,
     ManualMove (Obj 0) [Some 10, Some 20, Some (111 / 100), Some 0] 5,
     ProbingMove (Obj 2) [0, 0, 0, 0] 2])"
  by (simp add: run_defs)

text \<open>When the second half of the command returns, it returns the offsets so far with
  the difference of the measured height and the reference height appended, unrounded,
  and its last report is the summary of that list.\<close>

lemma tool1_cycle_returns:
  assumes "tool1_cycle self svc base_z offsets0 s = (Inr r, s')"
  shows "\<exists>th z s1 s2.
           lookup_object svc (KStr ''toolhead1'') = Inr th \<and>
           accurate_probe self svc (speed self) (KObj th) s1 = (Inr z, s2) \<and>
           r = offsets0 @ [z - base_z] \<and>
           last (snd s') = RespondInfo (offsets_line (offsets0 @ [z - base_z]))"
  using assms unfolding tool1_cycle_def prog_defs
  by (auto split: sum.splits prod.splits) blast

section \<open>The claims\<close>

text \<open>
  C8. The coordinate resolver returns each provided axis translated by the component
  of the active offset frame for that axis, and each absent axis as absent, whatever
  the combination of provided and absent axes (the frame has its three components).
\<close>

theorem get_gcode_position_translates:
  assumes "3 \<le> length offsets"
  shows "get_gcode_position offsets x y z =
     Inr (map_option (\<lambda>v. v + offsets ! 0) x,
          map_option (\<lambda>v. v + offsets ! 1) y,
          map_option (\<lambda>v. v + offsets ! 2) z)"
proof -
  from assms have "0 < length offsets" "1 < length offsets" "2 < length offsets" by auto
  then show ?thesis
    by (cases x; cases y; cases z; simp add: get_gcode_position_def py_index_def)
qed

theorem get_gcode_position_translates_witness:
  "3 \<le> length [1, 2, 3, 0 :: real] \<and>
   get_gcode_position [1, 2, 3, 0] (Some 10) None (Some 5) = Inr (Some 11, None, Some 8)"
  using get_gcode_position_translates [of "[1, 2, 3, 0]" "Some 10" None "Some 5"] by simp

text \<open>
  C10. Every lift commands the toolhead's current position with only the Z component
  increased by the lift distance, which is the configured \<^verbatim>\<open>lift_distance\<close> when no
  distance is given: the X, Y and extruder components of the commanded position are
  those of the current position. (The toolhead is the one the registry gives for the
  argument, and its position has a Z component.)
\<close>

theorem lift_between_probes_target:
  assumes "lookup_object svc toolhead = Inr th"
    and "get_position svc th m = Inr pos"
    and "2 < length pos"
  shows "snd (snd (lift_between_probes self svc toolhead dist_arg (m, evs))) =
           evs @ [ManualMove th
             (map Some (pos[2 := pos ! 2 +
                (case dist_arg of None \<Rightarrow> lift_distance self | Some d \<Rightarrow> d)]))
             (lift_speed self)]
       \<and> (\<forall>i < length pos. i \<noteq> 2 \<longrightarrow>
            pos[2 := pos ! 2 + (case dist_arg of None \<Rightarrow> lift_distance self | Some d \<Rightarrow> d)] ! i
              = pos ! i)"
  using assms
  by (cases "manual_move svc th
        (map Some (pos[2 := pos ! 2 +
           (case dist_arg of None \<Rightarrow> lift_distance self | Some d \<Rightarrow> d)]))
        (lift_speed self) m")
     (simp_all add: lift_between_probes_def py_index_def prog_defs Let_def)

theorem lift_between_probes_target_witness:
  "lookup_object klipper (KStr ''toolhead'') = Inr (Obj 0) \<and>
   get_position klipper (Obj 0) sim0 = Inr [0, 0, 5, 0] \<and>
   snd (snd (lift_between_probes cfg0 klipper (KStr ''toolhead'') None (sim0, []))) =
     [ManualMove (Obj 0) [Some 0, Some 0, Some (11 / 2), Some 0] 5] \<and>
   snd (snd (lift_between_probes cfg0 klipper (KStr ''toolhead'') (Some 2) (sim0, []))) =
     [ManualMove (Obj 0) [Some 0, Some 0, Some 7, Some 0] 5]"
  using lift_between_probes_target
          [of klipper "KStr ''toolhead''" "Obj 0" sim0 "[0, 0, 5, 0]" cfg0 None "[]"]
        lift_between_probes_target
          [of klipper "KStr ''toolhead''" "Obj 0" sim0 "[0, 0, 5, 0]" cfg0 "Some 2" "[]"]
  by (simp add: sim_defs)

text \<open>
  C5. A probe checks the homed state first: when the toolhead reports that Z is not
  homed, the probe fails with the not-homed command error and has issued nothing and
  changed nothing; hence whenever a probe has issued anything, a probing move
  included, Z was reported homed when it started.
\<close>

theorem probe_requires_homed_z:
  assumes "lookup_object svc (KStr ''toolhead'') = Inr g"
  shows "(CHR ''z'' \<notin> set (homed_axes svc g m) \<longrightarrow>
            probe self svc spd toolhead (m, evs) =
              (Inl (CommandError ''Must home before offset probing''), (m, evs)))
       \<and> (snd (snd (probe self svc spd toolhead (m, evs))) \<noteq> evs \<longrightarrow>
            CHR ''z'' \<in> set (homed_axes svc g m))"
proof (cases "CHR ''z'' \<in> set (homed_axes svc g m)")
  case True
  then show ?thesis by simp
next
  case False
  from probe_unhomed [OF assms False] show ?thesis by simp
qed

theorem probe_requires_homed_z_witness:
  "lookup_object klipper (KStr ''toolhead'') = Inr (Obj 0) \<and>
   homed_axes klipper (Obj 0) sim_unhomed = ''xy'' \<and>
   probe cfg0 klipper 5 (KStr ''toolhead'') (sim_unhomed, []) =
     (Inl (CommandError ''Must home before offset probing''), (sim_unhomed, [])) \<and>
   snd (snd (probe cfg0 klipper 5 (KStr ''toolhead'') (sim0, []))) =
     [ProbingMove (Obj 2) [0, 0, 0, 0] 5] \<and>
   CHR ''z'' \<in> set (homed_axes klipper (Obj 0) sim0)"
  using probe_requires_homed_z [of klipper "Obj 0" sim_unhomed cfg0 5 "KStr ''toolhead''" "[]"]
        probe_requires_homed_z [of klipper "Obj 0" sim0 cfg0 5 "KStr ''toolhead''" "[]"]
  by (simp add: run_defs sim_unhomed_def)

text \<open>
  C6. When the probing move of a probe fails with a command error whose text contains
  \<^verbatim>\<open>Timeout during endstop homing\<close>, the probe fails with a command error whose text is
  the whole original text followed by the hint; with any other command error it fails
  with that same text; any other exception passes through as it is.
\<close>

theorem probe_error_message:
  assumes "lookup_object svc (KStr ''toolhead'') = Inr g"
    and "CHR ''z'' \<in> set (homed_axes svc g m)"
    and "lookup_object svc toolhead = Inr th"
    and "lookup_object svc (KStr ''homing'') = Inr ph"
    and "get_position svc th m = Inr pos"
    and "2 < length pos"
    and "probing_move svc ph (pos[2 := z_position self]) spd m = Inl e"
  shows "fst (probe self svc spd toolhead (m, evs)) =
     Inl (case e of
            CommandError reason \<Rightarrow>
              CommandError (if py_in ''Timeout during endstop homing'' reason
                            then reason @ HINT_TIMEOUT else reason)
          | ConfigError t \<Rightarrow> e | TypeError \<Rightarrow> e | ValueError \<Rightarrow> e | IndexError \<Rightarrow> e
          | AttributeError \<Rightarrow> e | OtherError t \<Rightarrow> e)"
  using assms
  by (cases e)
     (simp_all add: probe_def ensure_homed_def try_probing_move_def reraise_def py_setitem_def
        prog_defs)

theorem probe_error_message_witness:
  "fst (probe cfg0 klipper 5 (KStr ''toolhead'') (sim_timeout, [])) =
     Inl (CommandError (''Timeout during endstop homing'' @ HINT_TIMEOUT)) \<and>
   fst (probe cfg0 klipper 5 (KStr ''toolhead'') (sim_early, [])) =
     Inl (CommandError ''Probe triggered prior to movement'')"
  using probe_error_message
          [of klipper "Obj 0" sim_timeout "KStr ''toolhead''" "Obj 0" "Obj 2" "[0, 0, 5, 0]"
              cfg0 5 "CommandError ''Timeout during endstop homing''" "[]"]
        probe_error_message
          [of klipper "Obj 0" sim_early "KStr ''toolhead''" "Obj 0" "Obj 2" "[0, 0, 5, 0]"
              cfg0 5 "CommandError ''Probe triggered prior to movement''" "[]"]
  by (simp add: sim_defs sim_timeout_def sim_early_def)

text \<open>
  C4, as the module has it. The speed of the second probe is \<^verbatim>\<open>round(s / 2)\<close>, the
  integer nearest to \<open>s / 2\<close> (within one half of it, a tie going to the even
  integer), and it is strictly positive for every \<open>s > 1\<close>. At \<open>s = 1\<close> it is
  \<open>0\<close>: the claim that it is positive from \<open>s = 1\<close> on fails there.
\<close>

theorem reprobe_speed_positive:
  "\<bar>of_int (reprobe_speed s) - s / 2\<bar> \<le> 1 / 2 \<and> (1 < s \<longrightarrow> 0 < reprobe_speed s)"
  unfolding reprobe_speed_def
  using py_round_near [of "s / 2"] py_round_pos [of "s / 2"] by simp

theorem reprobe_speed_positive_witness:
  "(1 :: real) < 5 \<and> reprobe_speed 5 = 2 \<and> 0 < reprobe_speed 5 \<and>
   \<bar>of_int (reprobe_speed 5) - 5 / 2\<bar> \<le> (1 / 2 :: real)"
  using reprobe_speed_positive [of 5]
  by (simp add: reprobe_speed_def py_round_def Let_def)

theorem reprobe_speed_zero_at_one:
  "(1 :: real) \<le> 1 \<and> \<not> 0 < reprobe_speed 1"
  by (simp add: reprobe_speed_def py_round_def Let_def)

text \<open>
  C3. The two-pass probe is meant to probe, lift once by the lift distance and probe
  again. On a registry that knows names only it does neither: called with the toolhead
  object, as the command calls it, the first lookup raises; called with the toolhead's
  name, the lookup inside the first probe raises, after the homing check and before any
  probing move. Nothing is issued in either case.
\<close>

theorem accurate_probe_on_klipper:
  "accurate_probe cfg0 klipper 5 (KObj (Obj 0)) (sim0, []) =
     (Inl (ConfigError ''Unknown config object''), (sim0, []))
   \<and> accurate_probe cfg0 klipper 5 (KStr ''toolhead'') (sim0, []) =
     (Inl (ConfigError ''Unknown config object''), (sim0, []))"
  by (simp add: accurate_probe_def probe_def ensure_homed_def prog_defs sim_defs)

text \<open>
  C1. The command is meant to report \<^verbatim>\<open>Tool <i>: <z>\<close> for each tool and a summary that
  starts at \<^verbatim>\<open>T1\<close>. In the end-to-end scenario it raises a \<^verbatim>\<open>TypeError\<close> after the first
  tool change, having reported nothing. The part of the command after that point, run
  where the second tool measures 0.62 against a reference of 0.5, labels the second
  tool's line \<^verbatim>\<open>Tool 0\<close> and the summary \<^verbatim>\<open>T0\<close>.
\<close>

theorem offset_probe_report:
  "cmd_OFFSET_PROBE cfg0 klipper gcmd_plain (sim0, []) =
     (Inl TypeError, (sim0, [RunGcode ''START'', RunGcode ''T0'']))
   \<and> (\<lambda>r. (fst r, snd (snd r))) (tool1_cycle cfg0 obliging (1 / 2) [] (sim1, [])) =
     (Inr [3 / 25],
      [RunGcode ''T1'',
       ManualMove (Obj 1) [Some 11, Some 22, Some 8, Some 0] 100,
       ProbingMove (Obj 2) [11, 22, 0, 0] 5,
       ManualMove (Obj 0) [Some 10, Some 20, Some (111 / 100), Some 0] 5,
       ProbingMove (Obj 2) [11, 22, 0, 0] 2,
       RespondInfo ''Tool 0: 0.620000'',
       ManualMove (Obj 1) [Some 11, Some 22, Some (17 / 2), Some 0] 5,
       RunGcode ''END'',
       RespondInfo ''Offsets: T0=0.120000''])"
proof
  show "cmd_OFFSET_PROBE cfg0 klipper gcmd_plain (sim0, []) =
     (Inl TypeError, (sim0, [RunGcode ''START'', RunGcode ''T0'']))"
    by (simp add: cmd_OFFSET_PROBE_def prog_defs sim_defs py_index_def)
next
  show "(\<lambda>r. (fst r, snd (snd r))) (tool1_cycle cfg0 obliging (1 / 2) [] (sim1, [])) =
     (Inr [3 / 25],
      [RunGcode ''T1'',
       ManualMove (Obj 1) [Some 11, Some 22, Some 8, Some 0] 100,
       ProbingMove (Obj 2) [11, 22, 0, 0] 5,
       ManualMove (Obj 0) [Some 10, Some 20, Some (111 / 100), Some 0] 5,
       ProbingMove (Obj 2) [11, 22, 0, 0] 2,
       RespondInfo ''Tool 0: 0.620000'',
       ManualMove (Obj 1) [Some 11, Some 22, Some (17 / 2), Some 0] 5,
       RunGcode ''END'',
       RespondInfo ''Offsets: T0=0.120000''])"
    by (simp add: run_defs fmt_6f_012 fmt_6f_062 offsets_line_def offset_str_def join_def
        tool_line_def fmt_d_def fmt_nat.simps digit_char_def)
qed

text \<open>
  C2. The command is meant to record and return \<open>z\<^sub>i - z\<^sub>0\<close> for each tool after the
  first. It never returns an offset sequence: whatever the services do and whatever
  state it starts in, it ends with an exception.
\<close>

theorem offset_probe_always_raises:
  "\<exists>e. fst (cmd_OFFSET_PROBE self svc g s) = Inl e"
  unfolding cmd_OFFSET_PROBE_def prog_defs
  by (auto split: sum.splits prod.splits simp: py_index_def)

text \<open>
  C7. The probe target of every tool is meant to go through the coordinate resolver
  before the move to the probe point. For the first tool the command never gets to a
  move at all: whatever the services do, it issues no manual move.
\<close>

theorem offset_probe_no_move:
  "ManualMove ob coord v \<notin> set (snd (snd (cmd_OFFSET_PROBE self svc g (m, []))))"
  unfolding cmd_OFFSET_PROBE_def prog_defs
  by (auto split: sum.splits prod.splits simp: py_index_def)

text \<open>
  C9. A \<^verbatim>\<open>LIFT_SPEED\<close> parameter is meant to set the speed of the lifts of that run.
  With \<^verbatim>\<open>LIFT_SPEED=20\<close> and a configured lift speed of 5, \<^verbatim>\<open>get_lift_speed\<close> would
  give 20, but a lift moves at 5, and the command does the same with and without the
  parameter.
\<close>

theorem lift_speed_parameter_ignored:
  "get_lift_speed cfg0 (Some gcmd_lift20) = Inr 20 \<and>
   snd (snd (lift_between_probes cfg0 klipper (KStr ''toolhead'') None (sim0, []))) =
     [ManualMove (Obj 0) [Some 0, Some 0, Some (11 / 2), Some 0] 5] \<and>
   cmd_OFFSET_PROBE cfg0 klipper gcmd_lift20 (sim0, []) =
     cmd_OFFSET_PROBE cfg0 klipper gcmd_plain (sim0, [])"
  by (simp add: get_lift_speed_def gcmd_lift20_def lift_between_probes_def prog_defs sim_defs
      py_index_def Let_def cmd_OFFSET_PROBE_def)

end
